theory Spec2Isabelle
  imports Complex_Main
begin

section \<open>The upload form component \<open>DocumentUpload.js\<close>\<close>

text \<open>
  The component keeps ten pieces of React state and reacts to three events: a change of
  the file input (\<open>handleFileChange\<close>), a submission of the form (\<open>handleSubmit\<close>) and
  a click on the reset button (\<open>handleReset\<close>). Two helpers used while rendering,
  \<open>renderDecisionBadge\<close> and \<open>formatINR\<close>, are pure.

  Strings are lists of bytes (UTF-8); JSON numbers are rationals, which is exact for
  what the component does with them (a test against zero and a comparison with zero).
  A field of the JSON response that is absent (or \<open>null\<close>) is \<open>None\<close>.
\<close>

subsection \<open>Data\<close>

text \<open>A browser \<open>File\<close>: its name and its bytes.\<close>

record File =
  name :: string
  bytes :: string

text \<open>One element of \<open>response.data.keywords\<close>.\<close>

record keyword_item =
  keyword :: string
  relevance_score :: rat

text \<open>\<open>response.data.evaluation\<close> and \<open>response.data.rfp_metadata\<close>; the component stores
  them as they arrive.\<close>

record evaluation_data =
  decision :: "string option"
  technical_fit_score :: "rat option"
  budget_fit_score :: "rat option"
  timeline_fit_score :: "rat option"
  capacity_fit_score :: "rat option"
  overall_fit_score :: "rat option"
  reasoning :: "string option"

record rfp_metadata =
  budget_in_inr :: "rat option"
  timeline_weeks :: "rat option"
  team_size_required :: "rat option"
  extraction_confidence :: "string option"
  extraction_notes :: "string option"

text \<open>The body of the response, \<open>response.data\<close>: every field is optional.\<close>

record response_data =
  data_filename :: "string option"
  data_upload_date :: "string option"
  data_keywords :: "keyword_item list option"
  data_id :: "rat option"
  data_status :: "string option"
  data_summary :: "string option"
  data_evaluation :: "evaluation_data option"
  data_rfp_metadata :: "rfp_metadata option"

text \<open>The object built by \<open>setDocumentInfo({...})\<close>.\<close>

record document_info =
  filename :: string
  upload_date :: string
  keyword_count :: nat
  id_num :: rat
  status :: string

text \<open>The ten \<open>useState\<close> cells of the component, with their initial values
  (\<open>file_sel\<close> is the cell \<open>file\<close> and \<open>keywords_list\<close> the cell \<open>keywords\<close>).\<close>

record component_state =
  file_sel :: "File option"
  fileName :: string
  loading :: bool
  keywords_list :: "keyword_item list"
  error :: string
  documentInfo :: "document_info option"
  summary :: string
  evaluation :: "evaluation_data option"
  extractedMetadata :: "rfp_metadata option"
  isSuccess :: bool

definition initial_state :: component_state where
  "initial_state =
     \<lparr>file_sel = None, fileName = '''', loading = False, keywords_list = [], error = '''',
      documentInfo = None, summary = '''', evaluation = None, extractedMetadata = None,
      isSuccess = False\<rparr>"

text \<open>A request handed to \<open>axios.post\<close>: the URL, the \<open>Content-Type\<close> header and the
  parts of the \<open>FormData\<close>.\<close>

record request =
  url :: string
  content_type :: string
  form_data :: "(string \<times> File) list"

text \<open>
  Everything a handler can touch: the component's state, the alerts shown so far, the
  value of the file input (\<open>e.target.value\<close>), the requests issued so far and the lines
  written by \<open>console.error\<close>.
\<close>

record world =
  ui :: component_state
  alerts :: "string list"
  input_value :: string
  requests :: "request list"
  console_errors :: "string list"

subsection \<open>State setters and effects\<close>

definition setFile :: "File option \<Rightarrow> world \<Rightarrow> world" where
  "setFile v w = w\<lparr>ui := (ui w)\<lparr>file_sel := v\<rparr>\<rparr>"

definition setFileName :: "string \<Rightarrow> world \<Rightarrow> world" where
  "setFileName v w = w\<lparr>ui := (ui w)\<lparr>fileName := v\<rparr>\<rparr>"

definition setLoading :: "bool \<Rightarrow> world \<Rightarrow> world" where
  "setLoading v w = w\<lparr>ui := (ui w)\<lparr>loading := v\<rparr>\<rparr>"

definition setKeywords :: "keyword_item list \<Rightarrow> world \<Rightarrow> world" where
  "setKeywords v w = w\<lparr>ui := (ui w)\<lparr>keywords_list := v\<rparr>\<rparr>"

definition setError :: "string \<Rightarrow> world \<Rightarrow> world" where
  "setError v w = w\<lparr>ui := (ui w)\<lparr>error := v\<rparr>\<rparr>"

definition setDocumentInfo :: "document_info option \<Rightarrow> world \<Rightarrow> world" where
  "setDocumentInfo v w = w\<lparr>ui := (ui w)\<lparr>documentInfo := v\<rparr>\<rparr>"

definition setSummary :: "string \<Rightarrow> world \<Rightarrow> world" where
  "setSummary v w = w\<lparr>ui := (ui w)\<lparr>summary := v\<rparr>\<rparr>"

definition setEvaluation :: "evaluation_data option \<Rightarrow> world \<Rightarrow> world" where
  "setEvaluation v w = w\<lparr>ui := (ui w)\<lparr>evaluation := v\<rparr>\<rparr>"

definition setExtractedMetadata :: "rfp_metadata option \<Rightarrow> world \<Rightarrow> world" where
  "setExtractedMetadata v w = w\<lparr>ui := (ui w)\<lparr>extractedMetadata := v\<rparr>\<rparr>"

definition setIsSuccess :: "bool \<Rightarrow> world \<Rightarrow> world" where
  "setIsSuccess v w = w\<lparr>ui := (ui w)\<lparr>isSuccess := v\<rparr>\<rparr>"

definition alert :: "string \<Rightarrow> world \<Rightarrow> world" where
  "alert msg w = w\<lparr>alerts := alerts w @ [msg]\<rparr>"

definition set_input_value :: "string \<Rightarrow> world \<Rightarrow> world" where
  "set_input_value v w = w\<lparr>input_value := v\<rparr>"

definition console_error :: "string \<Rightarrow> world \<Rightarrow> world" where
  "console_error msg w = w\<lparr>console_errors := console_errors w @ [msg]\<rparr>"

definition axios_post :: "request \<Rightarrow> world \<Rightarrow> world" where
  "axios_post r w = w\<lparr>requests := requests w @ [r]\<rparr>"

text \<open>Statements one after the other: \<open>run [s1, s2] w\<close> does \<open>s1\<close>, then \<open>s2\<close>.\<close>

definition run :: "(world \<Rightarrow> world) list \<Rightarrow> world \<Rightarrow> world" where
  "run stmts w = fold (\<lambda>stmt. stmt) stmts w"

lemmas setter_defs =
  setFile_def setFileName_def setLoading_def setKeywords_def setError_def
  setDocumentInfo_def setSummary_def setEvaluation_def setExtractedMetadata_def
  setIsSuccess_def alert_def set_input_value_def console_error_def axios_post_def

subsection \<open>String helpers of the language\<close>

text \<open>
  \<open>s.split('.')\<close>: the pieces of \<open>s\<close> between the separators, at least one piece (the
  empty string splits into one empty piece). \<open>cur\<close> holds the piece being read, reversed.
\<close>

fun split_acc :: "char \<Rightarrow> string \<Rightarrow> string \<Rightarrow> string list" where
  "split_acc sep cur [] = [rev cur]"
| "split_acc sep cur (c # cs) =
     (if c = sep then rev cur # split_acc sep [] cs else split_acc sep (c # cur) cs)"

definition split_str :: "char \<Rightarrow> string \<Rightarrow> string list" where
  "split_str sep s = split_acc sep [] s"

text \<open>\<open>a.pop()\<close>: the last element, \<open>undefined\<close> on an empty array.\<close>

definition pop :: "'a list \<Rightarrow> 'a option" where
  "pop xs = (if xs = [] then None else Some (last xs))"

text \<open>
  \<open>s.toLowerCase()\<close> on the ASCII letters. Bytes of 128 and more (the parts of a
  non-ASCII character) stay as they are: no such character lower-cases to a string of
  the letters p, d, f, o, c, x, t, so the membership test below decides as the browser
  does.
\<close>

definition upper_letters :: string where
  "upper_letters = ''ABCDEFGHIJKLMNOPQRSTUVWXYZ''"

definition lower_letters :: string where
  "lower_letters = ''abcdefghijklmnopqrstuvwxyz''"

definition lower_char :: "char \<Rightarrow> char" where
  "lower_char c =
     (case map_of (zip upper_letters lower_letters) c of Some l \<Rightarrow> l | None \<Rightarrow> c)"

definition toLowerCase :: "string \<Rightarrow> string" where
  "toLowerCase s = map lower_char s"

subsection \<open>\<open>handleFileChange\<close>\<close>

definition allowedExtensions :: "string list" where
  "allowedExtensions = [''pdf'', ''docx'', ''txt'']"

text \<open>\<open>selectedFile.name.split('.').pop()?.toLowerCase()\<close>\<close>

definition fileExtension :: "File \<Rightarrow> string option" where
  "fileExtension f = map_option toLowerCase (pop (split_str (CHR ''.'') (name f)))"

text \<open>\<open>fileExtension && allowedExtensions.includes(fileExtension)\<close>: the extension is a
  non-empty string of the list.\<close>

definition extension_allowed :: "File \<Rightarrow> bool" where
  "extension_allowed f =
     (case fileExtension f of
        None \<Rightarrow> False
      | Some x \<Rightarrow> x \<noteq> [] \<and> x \<in> set allowedExtensions)"

text \<open>
  The argument is \<open>e.target.files\<close> (\<open>None\<close> when the property is missing); the first
  file, when there is one, is \<open>selectedFile\<close>.
\<close>

definition handleFileChange :: "File list option \<Rightarrow> world \<Rightarrow> world" where
  "handleFileChange files w =
     (let selectedFile = (case files of None \<Rightarrow> None | Some [] \<Rightarrow> None | Some (f # _) \<Rightarrow> Some f);
          w1 = setIsSuccess False w
      in case selectedFile of
           None \<Rightarrow> w1
         | Some f \<Rightarrow>
             if extension_allowed f
             then run [setFile (Some f), setFileName (name f), setError ''''] w1
             else run [alert ''Invalid file type. Please select a PDF, DOCX, or TXT file.'',
                       set_input_value '''', setFile None, setFileName ''''] w1)"

subsection \<open>\<open>handleSubmit\<close>\<close>

text \<open>
  \<open>a || b\<close> on an optional value: \<open>a\<close> when it is present and truthy, \<open>b\<close> otherwise.
  The empty string and zero are falsy; arrays and objects are always truthy.
\<close>

definition js_or :: "('a \<Rightarrow> bool) \<Rightarrow> 'a option \<Rightarrow> 'a \<Rightarrow> 'a" where
  "js_or truthy a b = (case a of None \<Rightarrow> b | Some v \<Rightarrow> if truthy v then v else b)"

text \<open>The same when \<open>b\<close> may itself be \<open>undefined\<close> or \<open>null\<close>.\<close>

definition js_or_opt :: "('a \<Rightarrow> bool) \<Rightarrow> 'a option \<Rightarrow> 'a option \<Rightarrow> 'a option" where
  "js_or_opt truthy a b = (case a of None \<Rightarrow> b | Some v \<Rightarrow> if truthy v then Some v else b)"

definition truthy_string :: "string \<Rightarrow> bool" where
  "truthy_string s = (s \<noteq> [])"

definition truthy_number :: "'a::zero \<Rightarrow> bool" where
  "truthy_number n = (n \<noteq> 0)"

definition truthy_object :: "'a \<Rightarrow> bool" where
  "truthy_object x = True"

text \<open>
  Numbers of the language are IEEE doubles, and a product of two doubles is the exact
  product rounded to the nearest double, ties to the even one. \<open>pow2 k\<close> is 2 to the
  power \<open>k\<close>; \<open>binade x\<close>, for a positive \<open>x\<close>, is the exponent \<open>k\<close> with
  \<open>pow2 k \<le> x < pow2 (k + 1)\<close>, kept between -1022 (below it the doubles are
  subnormal and equally spaced) and 1023; neighbouring doubles of that binade are
  \<open>pow2 (k - 52)\<close> apart. Products of 2 to the power 1024 and more, which round to
  \<open>Infinity\<close>, do not occur in the component.
\<close>

definition pow2 :: "int \<Rightarrow> rat" where
  "pow2 k = (if 0 \<le> k then 2 ^ nat k else 1 / 2 ^ nat (- k))"

function exponent_up :: "rat \<Rightarrow> int \<Rightarrow> int" where
  "exponent_up x k = (if 1023 \<le> k \<or> x < pow2 (k + 1) then k else exponent_up x (k + 1))"
  by pat_completeness auto
termination
  by (relation "measure (\<lambda>(x, k). nat (1023 - k))") auto

function exponent_down :: "rat \<Rightarrow> int \<Rightarrow> int" where
  "exponent_down x k = (if k \<le> - 1022 \<or> pow2 k \<le> x then k else exponent_down x (k - 1))"
  by pat_completeness auto
termination
  by (relation "measure (\<lambda>(x, k). nat (k + 1022))") auto

definition binade :: "rat \<Rightarrow> int" where
  "binade x = (if 1 \<le> x then exponent_up x 0 else exponent_down x (- 1))"

definition round_half_even :: "rat \<Rightarrow> int" where
  "round_half_even q =
     (let n = \<lfloor>q\<rfloor>; r = q - of_int n
      in if r < 1 / 2 then n else if 1 / 2 < r then n + 1 else if even n then n else n + 1)"

definition round_double :: "rat \<Rightarrow> rat" where
  "round_double x =
     (if x = 0 then 0
      else let ulp = pow2 (binade \<bar>x\<bar> - 52) in of_int (round_half_even (x / ulp)) * ulp)"

text \<open>\<open>a * b\<close> on two doubles.\<close>

definition double_times :: "rat \<Rightarrow> rat \<Rightarrow> rat" where
  "double_times a b = round_double (a * b)"

text \<open>
  What the handler reads from outside: \<open>new Date().toISOString()\<close> and
  \<open>Math.random()\<close>, a double from 0 (included) to 1 (excluded).
\<close>

record env =
  now_iso :: string
  random :: rat

text \<open>
  What comes back for the request: nothing (the network failed), or a response with a
  status and a body (\<open>None\<close> for a body that is \<open>null\<close>; a body that is not an object
  has none of the fields).
\<close>

datatype http_result = NoResponse | Response nat "response_data option"

datatype js_error = AxiosError http_result | TypeError

text \<open>
  The promise of \<open>axios.post\<close>: with the default \<open>validateStatus\<close> of the library it
  resolves with the response when the status is 2xx, and is rejected otherwise and
  when there is no response.
\<close>

definition validateStatus :: "nat \<Rightarrow> bool" where
  "validateStatus st = (200 \<le> st \<and> st < 300)"

definition axios_settles :: "http_result \<Rightarrow> js_error + response_data option" where
  "axios_settles res =
     (case res of
        NoResponse \<Rightarrow> Inl (AxiosError res)
      | Response st body \<Rightarrow> if validateStatus st then Inr body else Inl (AxiosError res))"

definition upload_request :: "File \<Rightarrow> request" where
  "upload_request f =
     \<lparr>url = ''http://localhost:8000/api/documents/upload/'',
      content_type = ''multipart/form-data'',
      form_data = [(''file'', f)]\<rparr>"

text \<open>
  The handler up to the \<open>await\<close>: with no file, an alert and nothing else; otherwise the
  resets of lines 101 to 108 and the request. The second component is \<open>None\<close> when the
  handler has returned, and otherwise the \<open>fileName\<close> the rest of the handler will read
  (the value of the render in which the handler was created). \<open>e.preventDefault()\<close>
  acts on the event alone and is left out.
\<close>

definition handleSubmit_begin :: "world \<Rightarrow> world \<times> string option" where
  "handleSubmit_begin w =
     (case file_sel (ui w) of
        None \<Rightarrow> (alert ''Please select a file to upload.'' w, None)
      | Some f \<Rightarrow>
          (run [setLoading True, setIsSuccess False, setError '''', setKeywords [],
                setDocumentInfo None, setSummary '''', setEvaluation None,
                setExtractedMetadata None, axios_post (upload_request f)] w,
           Some (fileName (ui w))))"

text \<open>
  The body of \<open>try\<close> from the \<open>await\<close> on. A rejected promise throws; so does reading a
  property of a \<open>null\<close> body, while the argument of \<open>setDocumentInfo\<close> is being built,
  before any setter has run.
\<close>

definition try_block :: "env \<Rightarrow> string \<Rightarrow> http_result \<Rightarrow> world \<Rightarrow> js_error + world" where
  "try_block e fileName_read res w =
     (case axios_settles res of
        Inl err \<Rightarrow> Inl err
      | Inr None \<Rightarrow> Inl TypeError
      | Inr (Some d) \<Rightarrow>
          Inr (run [setDocumentInfo (Some
                      \<lparr>filename = js_or truthy_string (data_filename d) fileName_read,
                       upload_date = js_or truthy_string (data_upload_date d) (now_iso e),
                       keyword_count = js_or truthy_number (map_option length (data_keywords d)) 0,
                       id_num = js_or truthy_number (data_id d)
                                  (of_int \<lfloor>double_times (random e) 1000\<rfloor>),
                       status = js_or truthy_string (data_status d) ''PROCESSED''\<rparr>),
                    setKeywords (js_or truthy_object (data_keywords d) []),
                    setSummary (js_or truthy_string (data_summary d) ''''),
                    setEvaluation (js_or_opt truthy_object (data_evaluation d) None),
                    setExtractedMetadata (js_or_opt truthy_object (data_rfp_metadata d) None),
                    setIsSuccess True] w))"

text \<open>\<open>try\<close>, \<open>catch\<close> and \<open>finally\<close>.\<close>

definition handleSubmit_settle :: "env \<Rightarrow> string \<Rightarrow> http_result \<Rightarrow> world \<Rightarrow> world" where
  "handleSubmit_settle e fileName_read res w =
     setLoading False
       (case try_block e fileName_read res w of
          Inr w' \<Rightarrow> w'
        | Inl err \<Rightarrow>
            run [console_error ''Error uploading file:'',
                 setError ''Failed to upload and process document. Please try again. Check server status.'',
                 setIsSuccess False] w)"

text \<open>The whole handler, for a request that is answered by \<open>res\<close>.\<close>

definition handleSubmit :: "env \<Rightarrow> http_result \<Rightarrow> world \<Rightarrow> world" where
  "handleSubmit e res w =
     (case handleSubmit_begin w of
        (w1, None) \<Rightarrow> w1
      | (w1, Some fileName_read) \<Rightarrow> handleSubmit_settle e fileName_read res w1)"

subsection \<open>\<open>handleReset\<close>\<close>

definition handleReset :: "world \<Rightarrow> world" where
  "handleReset w =
     run [setFile None, setFileName '''', setLoading False, setError '''', setKeywords [],
          setDocumentInfo None, setSummary '''', setEvaluation None,
          setExtractedMetadata None, setIsSuccess False] w"

subsection \<open>What is rendered\<close>

text \<open>\<open>keywords.length > 0 || evaluation || extractedMetadata || summary\<close>: the results
  container, and every section in it, is rendered only when this holds.\<close>

definition hasResults :: "component_state \<Rightarrow> bool" where
  "hasResults s =
     (0 < length (keywords_list s) \<or> evaluation s \<noteq> None \<or> extractedMetadata s \<noteq> None
      \<or> truthy_string (summary s))"

text \<open>\<open>disabled={!file || loading}\<close> on the submit button.\<close>

definition submit_disabled :: "component_state \<Rightarrow> bool" where
  "submit_disabled s = (file_sel s = None \<or> loading s)"

subsection \<open>\<open>renderDecisionBadge\<close>\<close>

text \<open>
  \<open>decisionText\<close> and \<open>styleMap\<close> are object literals, and \<open>obj[key]\<close> on an object
  literal finds the object's own properties and, failing that, the members it inherits
  from \<open>Object.prototype\<close>. A property read is \<open>None\<close> for \<open>undefined\<close>, and otherwise
  an own value or the inherited member of that name.
\<close>

datatype 'a property = Own 'a | Inherited string

definition object_prototype_keys :: "string list" where
  "object_prototype_keys =
     [''constructor'', ''hasOwnProperty'', ''isPrototypeOf'', ''propertyIsEnumerable'',
      ''toLocaleString'', ''toString'', ''valueOf'', ''__proto__'', ''__defineGetter__'',
      ''__defineSetter__'', ''__lookupGetter__'', ''__lookupSetter__'']"

definition get_property :: "(string \<times> 'a) list \<Rightarrow> string \<Rightarrow> 'a property option" where
  "get_property obj k =
     (case map_of obj k of
        Some v \<Rightarrow> Some (Own v)
      | None \<Rightarrow> if k \<in> set object_prototype_keys then Some (Inherited k) else None)"

text \<open>The property key of the argument \<open>decision\<close> (here \<open>dec\<close>): the string itself, and \<open>"undefined"\<close> when
  \<open>evaluation.decision\<close> is absent.\<close>

definition property_key :: "string option \<Rightarrow> string" where
  "property_key dec = (case dec of None \<Rightarrow> ''undefined'' | Some d \<Rightarrow> d)"

text \<open>An own string is truthy when it is not empty; style objects and the inherited
  members (functions, and the prototype object) always are.\<close>

definition truthy_text :: "string property \<Rightarrow> bool" where
  "truthy_text p = (case p of Own t \<Rightarrow> truthy_string t | Inherited _ \<Rightarrow> True)"

record css_style =
  backgroundColor :: string
  color :: string

text \<open>The three labels end in an emoji, written here as its UTF-8 bytes: the check mark
  U+2705, the cross mark U+274C, and the warning sign U+26A0 with the selector U+FE0F.\<close>

definition decisionText :: "(string \<times> string) list" where
  "decisionText =
     [(''ACCEPT'', ''ACCEPT '' @ [CHR 0xE2, CHR 0x9C, CHR 0x85]),
      (''REJECT'', ''REJECT '' @ [CHR 0xE2, CHR 0x9D, CHR 0x8C]),
      (''REVIEW'', ''REVIEW '' @ [CHR 0xE2, CHR 0x9A, CHR 0xA0, CHR 0xEF, CHR 0xB8, CHR 0x8F])]"

definition styleMap :: "(string \<times> css_style) list" where
  "styleMap =
     [(''ACCEPT'', \<lparr>backgroundColor = ''var(--success-bg)'', color = ''var(--success-color)''\<rparr>),
      (''REJECT'', \<lparr>backgroundColor = ''var(--error-bg)'', color = ''var(--error-color)''\<rparr>),
      (''REVIEW'', \<lparr>backgroundColor = ''var(--warning-bg)'', color = ''var(--warning-color)''\<rparr>)]"

text \<open>The \<open>span\<close> that is returned: its \<open>style\<close> and its child.\<close>

record decision_badge =
  badge_style :: "css_style property option"
  badge_text :: "string property option"

definition renderDecisionBadge :: "string option \<Rightarrow> decision_badge" where
  "renderDecisionBadge dec =
     (let badgeStyle = js_or_opt truthy_object (get_property styleMap (property_key dec))
                         (get_property styleMap ''REVIEW'');
          text = js_or_opt truthy_text (get_property decisionText (property_key dec))
                   (get_property decisionText ''REVIEW'')
      in \<lparr>badge_style = badgeStyle, badge_text = text\<rparr>)"

text \<open>The badge of a decision under review.\<close>

definition review_badge :: decision_badge where
  "review_badge =
     \<lparr>badge_style = Some (Own \<lparr>backgroundColor = ''var(--warning-bg)'',
                                  color = ''var(--warning-color)''\<rparr>),
      badge_text = Some (Own (''REVIEW '' @ [CHR 0xE2, CHR 0x9A, CHR 0xA0, CHR 0xEF, CHR 0xB8, CHR 0x8F]))\<rparr>"

subsection \<open>\<open>formatINR\<close>\<close>

text \<open>The options handed to \<open>Intl.NumberFormat\<close>.\<close>

record number_format_options =
  style :: string
  currency :: string
  maximumFractionDigits :: nat

text \<open>
  \<open>new Intl.NumberFormat(locale, options).format(value)\<close> belongs to the platform and is
  a parameter, \<open>intl_format\<close>. \<open>!value\<close> holds for an absent value and for zero.
\<close>

definition formatINR ::
  "(string \<Rightarrow> number_format_options \<Rightarrow> rat \<Rightarrow> string) \<Rightarrow> rat option \<Rightarrow> string" where
  "formatINR intl_format value =
     (case value of
        None \<Rightarrow> ''Unknown''
      | Some v \<Rightarrow>
          if \<not> truthy_number v \<or> v \<le> 0 then ''Unknown''
          else intl_format ''en-IN''
                 \<lparr>style = ''currency'', currency = ''INR'', maximumFractionDigits = 0\<rparr> v)"

subsection \<open>Example values\<close>

text \<open>A freshly mounted component, five files, a clock and a random number (the double
  written 0.123, which is 553942754166571 / 2^52), a response with no field and one with
  every field.\<close>

definition initial_world :: world where
  "initial_world =
     \<lparr>ui = initial_state, alerts = [], input_value = '''', requests = [], console_errors = []\<rparr>"

definition proposal_pdf :: File where
  "proposal_pdf = \<lparr>name = ''Proposal.PDF'', bytes = ''%PDF-1.7''\<rparr>"

definition report_doc :: File where
  "report_doc = \<lparr>name = ''report.doc'', bytes = ''''\<rparr>"

definition setup_exe :: File where
  "setup_exe = \<lparr>name = ''setup.exe'', bytes = ''MZ''\<rparr>"

definition readme_file :: File where
  "readme_file = \<lparr>name = ''README'', bytes = ''read me''\<rparr>"

definition dotless_pdf :: File where
  "dotless_pdf = \<lparr>name = ''pdf'', bytes = ''''\<rparr>"

definition sample_env :: env where
  "sample_env = \<lparr>now_iso = ''2025-01-15T10:30:00.000Z'', random = 553942754166571 / 4503599627370496\<rparr>"

definition empty_response :: response_data where
  "empty_response =
     \<lparr>data_filename = None, data_upload_date = None, data_keywords = None, data_id = None,
      data_status = None, data_summary = None, data_evaluation = None,
      data_rfp_metadata = None\<rparr>"

definition full_response :: response_data where
  "full_response =
     \<lparr>data_filename = Some ''stored.pdf'', data_upload_date = Some ''2025-01-15T10:29:58Z'',
      data_keywords = Some [\<lparr>keyword = ''cloud'', relevance_score = 873 / 1000\<rparr>,
                            \<lparr>keyword = ''migration'', relevance_score = 1 / 2\<rparr>],
      data_id = Some 12, data_status = Some ''DONE'', data_summary = Some ''A summary.'',
      data_evaluation = Some \<lparr>decision = Some ''ACCEPT'', technical_fit_score = Some 80,
        budget_fit_score = Some 70, timeline_fit_score = Some 60, capacity_fit_score = Some 90,
        overall_fit_score = Some 75, reasoning = Some ''Good fit.''\<rparr>,
      data_rfp_metadata = Some \<lparr>budget_in_inr = Some 500000, timeline_weeks = Some 12,
        team_size_required = Some 4, extraction_confidence = Some ''high'',
        extraction_notes = None\<rparr>\<rparr>"

text \<open>
  A formatter to run \<open>formatINR\<close> with in the examples: what the platform gives for the
  locale \<open>en-IN\<close>, the currency INR and no fraction digits on a positive number, namely
  the rupee sign (U+20B9, three bytes), then the number rounded to a whole number, its
  digits grouped the Indian way (the last three, then twos).
\<close>

definition digit_char :: "nat \<Rightarrow> char" where
  "digit_char d = ''0123456789'' ! (d mod 10)"

fun decimal :: "nat \<Rightarrow> string" where
  "decimal n = (if n < 10 then [digit_char n] else decimal (n div 10) @ [digit_char (n mod 10)])"

fun pairs_with_commas :: "string \<Rightarrow> string" where
  "pairs_with_commas (a # b # c # rest) = a # b # CHR '','' # pairs_with_commas (c # rest)"
| "pairs_with_commas ds = ds"

definition indian_grouping :: "string \<Rightarrow> string" where
  "indian_grouping ds =
     (let r = rev ds
      in rev (if 3 < length r then take 3 r @ CHR '','' # pairs_with_commas (drop 3 r) else r))"

definition intl_format_model :: "string \<Rightarrow> number_format_options \<Rightarrow> rat \<Rightarrow> string" where
  "intl_format_model locale opts v =
     [CHR 0xE2, CHR 0x82, CHR 0xB9] @ indian_grouping (decimal (nat \<lfloor>v + 1 / 2\<rfloor>))"

text \<open>The component after \<open>Proposal.PDF\<close> has been selected and uploaded with success.\<close>

definition shown_results :: world where
  "shown_results =
     handleSubmit sample_env (Response 200 (Some full_response))
       (handleFileChange (Some [proposal_pdf]) initial_world)"

section \<open>Properties\<close>

subsection \<open>Unfolding and the file extension\<close>

lemmas handler_defs =
  handleFileChange_def handleSubmit_def handleSubmit_begin_def handleSubmit_settle_def
  try_block_def axios_settles_def validateStatus_def handleReset_def run_def setter_defs
  upload_request_def

lemmas js_defs = js_or_def js_or_opt_def truthy_string_def truthy_number_def truthy_object_def

lemmas example_defs =
  initial_world_def initial_state_def proposal_pdf_def report_doc_def setup_exe_def
  readme_file_def dotless_pdf_def
  sample_env_def empty_response_def full_response_def

lemmas extension_defs =
  extension_allowed_def fileExtension_def split_str_def pop_def toLowerCase_def
  lower_char_def upper_letters_def lower_letters_def allowedExtensions_def

lemmas double_defs =
  double_times_def round_double_def binade_def pow2_def round_half_even_def Let_def

lemmas badge_defs =
  renderDecisionBadge_def get_property_def property_key_def decisionText_def styleMap_def
  object_prototype_keys_def truthy_text_def js_or_opt_def truthy_object_def truthy_string_def

lemma floor_rat_numeral: "\<lfloor>(numeral a :: rat) / numeral b\<rfloor> = numeral a div numeral b"
  by (metis floor_divide_of_int_eq of_int_numeral)

lemma split_acc_nonempty: "split_acc sep cur s \<noteq> []"
  by (induction s arbitrary: cur) auto

lemma takeWhile_no_sep: "sep \<notin> set s \<Longrightarrow> takeWhile (\<lambda>c. c \<noteq> sep) (rev s) = rev s"
  by (induction s) (auto simp: takeWhile_tail)

lemma last_split_acc:
  "last (split_acc sep cur s) =
     (if sep \<in> set s then rev (takeWhile (\<lambda>c. c \<noteq> sep) (rev s)) else rev cur @ s)"
  by (induction s arbitrary: cur) (auto simp: takeWhile_tail split_acc_nonempty takeWhile_no_sep)

lemma fileExtension_eq:
  "fileExtension f = Some (toLowerCase (rev (takeWhile (\<lambda>c. c \<noteq> CHR ''.'') (rev (name f)))))"
  by (simp add: fileExtension_def pop_def split_str_def split_acc_nonempty last_split_acc
      takeWhile_no_sep)

lemma extension_allowed_iff:
  "extension_allowed f \<longleftrightarrow>
     toLowerCase (rev (takeWhile (\<lambda>c. c \<noteq> CHR ''.'') (rev (name f))))
       \<in> {''pdf'', ''docx'', ''txt''}"
  by (auto simp add: extension_allowed_def fileExtension_eq allowedExtensions_def)

lemma shown_results_eq:
  "shown_results =
     \<lparr>ui = \<lparr>file_sel = Some proposal_pdf, fileName = ''Proposal.PDF'', loading = False,
             keywords_list = [\<lparr>keyword = ''cloud'', relevance_score = 873 / 1000\<rparr>,
                              \<lparr>keyword = ''migration'', relevance_score = 1 / 2\<rparr>],
             error = '''',
             documentInfo = Some \<lparr>filename = ''stored.pdf'',
               upload_date = ''2025-01-15T10:29:58Z'', keyword_count = 2, id_num = 12,
               status = ''DONE''\<rparr>,
             summary = ''A summary.'', evaluation = data_evaluation full_response,
             extractedMetadata = data_rfp_metadata full_response, isSuccess = True\<rparr>,
      alerts = [], input_value = '''', requests = [upload_request proposal_pdf],
      console_errors = []\<rparr>"
  by (simp add: shown_results_def handler_defs js_defs extension_defs example_defs)

subsection \<open>Selecting a file\<close>

text \<open>
  C1, as stated, fails: the file \<open>report.doc\<close> has the extension \<open>doc\<close>, one of pdf,
  docx, doc, txt, and \<open>handleFileChange\<close> does not store it; it shows the alert.
\<close>

theorem handleFileChange_doc_counterexample:
  "fileExtension report_doc = Some ''doc''
   \<and> ''doc'' \<in> {''pdf'', ''docx'', ''doc'', ''txt''}
   \<and> file_sel (ui (handleFileChange (Some [report_doc]) initial_world)) = None
   \<and> alerts (handleFileChange (Some [report_doc]) initial_world)
       = [''Invalid file type. Please select a PDF, DOCX, or TXT file.'']"
  by (simp add: handler_defs extension_defs example_defs)

text \<open>
  C1, amended: for a selected file whose name has a dot, the extension is the text after
  the last dot, and \<open>handleFileChange\<close> accepts the file exactly when the extension, in
  lower case, is one of pdf, docx, txt. It then stores the file and its name, clears the
  error and resets the success flag, and touches nothing else. A file with any other
  extension, and a file whose name has no dot, is refused: the handler shows the alert,
  empties the file input, clears the file and its name, and a submission that follows
  issues no request. Left out are the names with no dot that are themselves pdf, docx
  or txt in some letter case.
\<close>

theorem handleFileChange_accepts_iff:
  assumes "CHR ''.'' \<notin> set (name f) \<longrightarrow> toLowerCase (name f) \<notin> {''pdf'', ''docx'', ''txt''}"
  shows "(if CHR ''.'' \<in> set (name f)
             \<and> toLowerCase (rev (takeWhile (\<lambda>c. c \<noteq> CHR ''.'') (rev (name f))))
                 \<in> {''pdf'', ''docx'', ''txt''}
          then handleFileChange (Some (f # fs)) w
                 = w\<lparr>ui := (ui w)\<lparr>isSuccess := False, file_sel := Some f, fileName := name f,
                                 error := ''''\<rparr>\<rparr>
          else alerts (handleFileChange (Some (f # fs)) w)
                 = alerts w @ [''Invalid file type. Please select a PDF, DOCX, or TXT file.'']
               \<and> input_value (handleFileChange (Some (f # fs)) w) = ''''
               \<and> file_sel (ui (handleFileChange (Some (f # fs)) w)) = None
               \<and> fileName (ui (handleFileChange (Some (f # fs)) w)) = ''''
               \<and> requests (handleSubmit e res (handleFileChange (Some (f # fs)) w)) = requests w)"
proof (cases "CHR ''.'' \<in> set (name f)")
  case True
  show ?thesis
  proof (cases "extension_allowed f")
    case allowed: True
    with True show ?thesis
      using extension_allowed_iff [of f]
      by (simp add: handleFileChange_def run_def setter_defs)
  next
    case refused: False
    with True show ?thesis
      using extension_allowed_iff [of f] by (simp add: handler_defs)
  qed
next
  case False
  with assms have "toLowerCase (name f) \<notin> {''pdf'', ''docx'', ''txt''}"
    by blast
  with False have "\<not> extension_allowed f"
    using extension_allowed_iff [of f] by (simp add: takeWhile_no_sep)
  with False show ?thesis
    by (simp add: handler_defs)
qed

text \<open>\<open>Proposal.PDF\<close> is accepted on a fresh component; \<open>setup.exe\<close> and \<open>README\<close> are
  not, and a submission after them sends nothing.\<close>

theorem handleFileChange_accepts_iff_witness:
  "handleFileChange (Some [proposal_pdf]) initial_world
     = initial_world\<lparr>ui := initial_state\<lparr>file_sel := Some proposal_pdf,
                                            fileName := ''Proposal.PDF''\<rparr>\<rparr>
   \<and> file_sel (ui (handleFileChange (Some [setup_exe]) initial_world)) = None
   \<and> requests (handleSubmit sample_env (Response 200 (Some full_response))
                 (handleFileChange (Some [setup_exe]) initial_world)) = []
   \<and> CHR ''.'' \<notin> set (name readme_file)
   \<and> alerts (handleFileChange (Some [readme_file]) initial_world)
       = [''Invalid file type. Please select a PDF, DOCX, or TXT file.'']
   \<and> requests (handleSubmit sample_env (Response 200 (Some full_response))
                 (handleFileChange (Some [readme_file]) initial_world)) = []"
proof -
  have dotted: "CHR ''.'' \<notin> set (name proposal_pdf)
      \<longrightarrow> toLowerCase (name proposal_pdf) \<notin> {''pdf'', ''docx'', ''txt''}"
    "CHR ''.'' \<notin> set (name setup_exe)
      \<longrightarrow> toLowerCase (name setup_exe) \<notin> {''pdf'', ''docx'', ''txt''}"
    by (simp_all add: proposal_pdf_def setup_exe_def)
  have plain: "CHR ''.'' \<notin> set (name readme_file)
      \<longrightarrow> toLowerCase (name readme_file) \<notin> {''pdf'', ''docx'', ''txt''}"
    by (simp add: readme_file_def toLowerCase_def lower_char_def upper_letters_def
        lower_letters_def)
  show ?thesis
    using handleFileChange_accepts_iff [OF dotted(1), of "[]" initial_world sample_env
        "Response 200 (Some full_response)"]
      handleFileChange_accepts_iff [OF dotted(2), of "[]" initial_world sample_env
        "Response 200 (Some full_response)"]
      handleFileChange_accepts_iff [OF plain, of "[]" initial_world sample_env
        "Response 200 (Some full_response)"]
    by (simp add: extension_defs example_defs)
qed

text \<open>
  The names left out. On a name with no dot \<open>split('.')\<close> gives one piece, the name
  itself, and \<open>pop()\<close> returns it: a file named \<open>pdf\<close>, which has no extension, passes
  the test of line 80, is stored, and is uploaded by the submission that follows.
\<close>

lemma handleFileChange_dotless_name:
  "CHR ''.'' \<notin> set (name dotless_pdf)
   \<and> file_sel (ui (handleFileChange (Some [dotless_pdf]) initial_world)) = Some dotless_pdf
   \<and> requests (fst (handleSubmit_begin (handleFileChange (Some [dotless_pdf]) initial_world)))
       = [upload_request dotless_pdf]"
  by (simp add: handler_defs extension_defs example_defs)

text \<open>
  C7, as stated, fails: after a successful upload the success flag is set, and selecting
  \<open>setup.exe\<close> resets it, so a state field other than the selection changes.
\<close>

theorem handleFileChange_frame_counterexample:
  "\<not> extension_allowed setup_exe
   \<and> isSuccess (ui (handleSubmit sample_env (Response 200 (Some full_response))
                     (handleFileChange (Some [proposal_pdf]) initial_world)))
   \<and> \<not> isSuccess (ui (handleFileChange (Some [setup_exe])
                     (handleSubmit sample_env (Response 200 (Some full_response))
                        (handleFileChange (Some [proposal_pdf]) initial_world))))"
  by (simp add: handler_defs js_defs extension_defs example_defs)

text \<open>
  C7, amended: when the extension is refused, \<open>handleFileChange\<close> shows one alert, issues
  no request, clears the file, the file name and the value of the file input, and resets
  the success flag to false; every other state field keeps its value.
\<close>

theorem handleFileChange_invalid_frame:
  assumes "\<not> extension_allowed f"
  shows "handleFileChange (Some (f # fs)) w
           = w\<lparr>ui := (ui w)\<lparr>isSuccess := False, file_sel := None, fileName := ''''\<rparr>,
                alerts := alerts w @ [''Invalid file type. Please select a PDF, DOCX, or TXT file.''],
                input_value := ''''\<rparr>"
  using assms by (simp add: handleFileChange_def run_def setter_defs)

text \<open>On a fresh component, refusing \<open>setup.exe\<close> leaves only the alert behind.\<close>

theorem handleFileChange_invalid_frame_witness:
  "\<not> extension_allowed setup_exe
   \<and> handleFileChange (Some [setup_exe]) initial_world
       = initial_world\<lparr>alerts := [''Invalid file type. Please select a PDF, DOCX, or TXT file.'']\<rparr>"
proof -
  have h: "\<not> extension_allowed setup_exe"
    by (simp add: extension_defs setup_exe_def)
  show ?thesis
    using h handleFileChange_invalid_frame [OF h, of "[]" initial_world]
    by (simp add: initial_world_def initial_state_def)
qed

subsection \<open>Submitting and resetting\<close>

text \<open>
  C2: \<open>handleReset\<close> puts every state cell back to its initial value, whatever the state
  was. A submission with a file selected has, when its request is in flight, the
  keywords, the document info, the summary, the evaluation, the extracted metadata and
  the error message at their initial values and the success flag false: nothing of an
  earlier result is rendered beside the new request.
\<close>

theorem submit_begin_and_reset_clear:
  "ui (handleReset w) = initial_state
   \<and> keywords_list (ui (handleReset w)) = [] \<and> documentInfo (ui (handleReset w)) = None
   \<and> summary (ui (handleReset w)) = '''' \<and> evaluation (ui (handleReset w)) = None
   \<and> extractedMetadata (ui (handleReset w)) = None \<and> error (ui (handleReset w)) = ''''
   \<and> \<not> isSuccess (ui (handleReset w))
   \<and> (file_sel (ui w) = Some f \<longrightarrow>
        snd (handleSubmit_begin w) = Some (fileName (ui w))
        \<and> requests (fst (handleSubmit_begin w)) = requests w @ [upload_request f]
        \<and> ui (fst (handleSubmit_begin w))
            = initial_state\<lparr>file_sel := Some f, fileName := fileName (ui w), loading := True\<rparr>
        \<and> keywords_list (ui (fst (handleSubmit_begin w))) = []
        \<and> documentInfo (ui (fst (handleSubmit_begin w))) = None
        \<and> summary (ui (fst (handleSubmit_begin w))) = ''''
        \<and> evaluation (ui (fst (handleSubmit_begin w))) = None
        \<and> extractedMetadata (ui (fst (handleSubmit_begin w))) = None
        \<and> error (ui (fst (handleSubmit_begin w))) = ''''
        \<and> \<not> isSuccess (ui (fst (handleSubmit_begin w)))
        \<and> \<not> hasResults (ui (fst (handleSubmit_begin w))))"
  by (simp add: handleReset_def handleSubmit_begin_def run_def setter_defs initial_state_def
      hasResults_def truthy_string_def)

text \<open>With the results of an earlier upload on screen, both a reset and a new submission
  clear them.\<close>

theorem submit_begin_and_reset_clear_witness:
  "hasResults (ui shown_results)
   \<and> file_sel (ui shown_results) = Some proposal_pdf
   \<and> ui (handleReset shown_results) = initial_state
   \<and> \<not> hasResults (ui (fst (handleSubmit_begin shown_results)))
   \<and> requests (fst (handleSubmit_begin shown_results))
       = [upload_request proposal_pdf, upload_request proposal_pdf]"
proof -
  have stale: "hasResults (ui shown_results)"
    by (simp add: shown_results_eq hasResults_def)
  have h: "file_sel (ui shown_results) = Some proposal_pdf"
    by (simp add: shown_results_eq)
  have reqs: "requests shown_results = [upload_request proposal_pdf]"
    by (simp add: shown_results_eq)
  note cleared = submit_begin_and_reset_clear [of shown_results proposal_pdf]
  from cleared have "ui (handleReset shown_results) = initial_state"
    by blast
  moreover from cleared h have "\<not> hasResults (ui (fst (handleSubmit_begin shown_results)))"
    by blast
  moreover from cleared h reqs have "requests (fst (handleSubmit_begin shown_results))
      = [upload_request proposal_pdf, upload_request proposal_pdf]"
    by simp
  ultimately show ?thesis
    using stale h by blast
qed

text \<open>
  C3: when the request of a submission fails (no answer, or a status outside 2xx), the
  error message is the fixed one, the success flag is false and every result field is
  empty, so the results container is not rendered.
\<close>

theorem failed_request_shows_error_only:
  assumes "file_sel (ui w) = Some f"
    and "res = NoResponse \<or> (res = Response st body \<and> \<not> (200 \<le> st \<and> st < 300))"
  shows "error (ui (handleSubmit e res w))
           = ''Failed to upload and process document. Please try again. Check server status.''
         \<and> \<not> isSuccess (ui (handleSubmit e res w))
         \<and> documentInfo (ui (handleSubmit e res w)) = None
         \<and> keywords_list (ui (handleSubmit e res w)) = []
         \<and> summary (ui (handleSubmit e res w)) = ''''
         \<and> evaluation (ui (handleSubmit e res w)) = None
         \<and> extractedMetadata (ui (handleSubmit e res w)) = None
         \<and> \<not> hasResults (ui (handleSubmit e res w))"
  using assms by (auto simp add: handler_defs hasResults_def truthy_string_def)

text \<open>A status 500 with a complete body after a successful upload: the earlier results
  are gone, nothing of the body is stored, and only the error message is left.\<close>

theorem failed_request_shows_error_only_witness:
  "file_sel (ui shown_results) = Some proposal_pdf
   \<and> hasResults (ui shown_results)
   \<and> \<not> (200 \<le> (500::nat) \<and> (500::nat) < 300)
   \<and> error (ui (handleSubmit sample_env (Response 500 (Some full_response)) shown_results))
       = ''Failed to upload and process document. Please try again. Check server status.''
   \<and> documentInfo (ui (handleSubmit sample_env (Response 500 (Some full_response)) shown_results))
       = None
   \<and> \<not> hasResults (ui (handleSubmit sample_env (Response 500 (Some full_response)) shown_results))"
proof -
  have h: "file_sel (ui shown_results) = Some proposal_pdf"
    by (simp add: shown_results_eq)
  have stale: "hasResults (ui shown_results)"
    by (simp add: shown_results_eq hasResults_def)
  have bad: "Response 500 (Some full_response) = NoResponse
             \<or> (Response 500 (Some full_response) = Response 500 (Some full_response)
                 \<and> \<not> (200 \<le> (500::nat) \<and> (500::nat) < 300))"
    by simp
  show ?thesis
    using h stale failed_request_shows_error_only [OF h bad, of sample_env]
    by simp
qed

text \<open>
  C4: after a successful response the document info is always set; a missing filename is
  replaced by the locally stored file name, a missing upload date by the current time, a
  missing id by the random number \<open>Math.floor(Math.random() * 1000)\<close> (the product is
  the one of doubles), a missing status by \<open>PROCESSED\<close>, and the keyword count is 0 when
  no keywords came back.
\<close>

theorem missing_fields_fall_back:
  assumes "file_sel (ui w) = Some f"
    and "200 \<le> st \<and> st < 300"
  shows "\<exists>info. documentInfo (ui (handleSubmit e (Response st (Some d)) w)) = Some info
           \<and> (data_filename d = None \<longrightarrow> filename info = fileName (ui w))
           \<and> (data_upload_date d = None \<longrightarrow> upload_date info = now_iso e)
           \<and> (data_id d = None
                \<longrightarrow> id_num info = of_int \<lfloor>double_times (random e) 1000\<rfloor>)
           \<and> (data_status d = None \<longrightarrow> status info = ''PROCESSED'')
           \<and> (data_keywords d = None \<longrightarrow> keyword_count info = 0)"
  using assms by (simp add: handler_defs js_defs)

text \<open>A response with no field at all, when \<open>Math.random()\<close> gives 0.123: the exact
  product is a little less than 123, the product of doubles is 123, and the id is 123.\<close>

theorem missing_fields_fall_back_witness:
  "file_sel (ui shown_results) = Some proposal_pdf
   \<and> documentInfo (ui (handleSubmit sample_env (Response 200 (Some empty_response)) shown_results))
       = Some \<lparr>filename = ''Proposal.PDF'', upload_date = ''2025-01-15T10:30:00.000Z'',
               keyword_count = 0, id_num = 123, status = ''PROCESSED''\<rparr>"
proof -
  have h: "file_sel (ui shown_results) = Some proposal_pdf"
    by (simp add: shown_results_eq)
  have absent: "data_filename empty_response = None" "data_upload_date empty_response = None"
    "data_id empty_response = None" "data_status empty_response = None"
    "data_keywords empty_response = None"
    by (simp_all add: empty_response_def)
  have local: "fileName (ui shown_results) = ''Proposal.PDF''"
    "now_iso sample_env = ''2025-01-15T10:30:00.000Z''"
    "\<lfloor>double_times (random sample_env) 1000\<rfloor> = 123"
    by (simp_all add: shown_results_eq sample_env_def double_defs floor_rat_numeral)
  have ok: "200 \<le> (200::nat) \<and> (200::nat) < 300"
    by simp
  from missing_fields_fall_back [OF h ok, of sample_env empty_response] absent
  obtain info where
    stored: "documentInfo (ui (handleSubmit sample_env (Response 200 (Some empty_response)) shown_results))
       = Some info"
    and fields: "filename info = fileName (ui shown_results)"
      "upload_date info = now_iso sample_env"
      "id_num info = of_int \<lfloor>double_times (random sample_env) 1000\<rfloor>"
      "status info = ''PROCESSED''" "keyword_count info = 0"
    by blast
  from fields local have "info = \<lparr>filename = ''Proposal.PDF'',
      upload_date = ''2025-01-15T10:30:00.000Z'', keyword_count = 0, id_num = 123,
      status = ''PROCESSED''\<rparr>"
    by (cases info) simp
  with stored h show ?thesis by simp
qed

text \<open>
  C5: a submission with a file selected ends with the loading flag false, however the
  request is answered (a response with any status and any body, or no response); the
  file is still selected, so the submit button is enabled again.
\<close>

theorem loading_cleared_after_attempt:
  assumes "file_sel (ui w) = Some f"
  shows "\<not> loading (ui (handleSubmit e res w))
         \<and> \<not> submit_disabled (ui (handleSubmit e res w))"
  using assms
  by (simp add: handler_defs submit_disabled_def split: http_result.split option.split)

text \<open>Four answers to the request.\<close>

theorem loading_cleared_after_attempt_witness:
  "file_sel (ui shown_results) = Some proposal_pdf
   \<and> \<not> loading (ui (handleSubmit sample_env (Response 200 (Some empty_response)) shown_results))
   \<and> \<not> loading (ui (handleSubmit sample_env (Response 200 None) shown_results))
   \<and> \<not> loading (ui (handleSubmit sample_env NoResponse shown_results))
   \<and> \<not> submit_disabled (ui (handleSubmit sample_env (Response 503 None) shown_results))"
proof -
  have h: "file_sel (ui shown_results) = Some proposal_pdf"
    by (simp add: shown_results_eq)
  show ?thesis
    using h loading_cleared_after_attempt [OF h, of sample_env "Response 200 (Some empty_response)"]
      loading_cleared_after_attempt [OF h, of sample_env "Response 200 None"]
      loading_cleared_after_attempt [OF h, of sample_env NoResponse]
      loading_cleared_after_attempt [OF h, of sample_env "Response 503 None"]
    by blast
qed

text \<open>
  C6: with no file selected, \<open>handleSubmit\<close> shows the alert and returns: the handler
  does not reach the request, the list of requests is as before and so is every state
  cell.
\<close>

theorem submit_without_file_is_noop:
  assumes "file_sel (ui w) = None"
  shows "handleSubmit e res w = w\<lparr>alerts := alerts w @ [''Please select a file to upload.'']\<rparr>
         \<and> snd (handleSubmit_begin w) = None
         \<and> requests (handleSubmit e res w) = requests w
         \<and> ui (handleSubmit e res w) = ui w"
  using assms by (simp add: handleSubmit_def handleSubmit_begin_def alert_def)

text \<open>Submitting on a fresh component.\<close>

theorem submit_without_file_is_noop_witness:
  "file_sel (ui initial_world) = None
   \<and> handleSubmit sample_env (Response 200 (Some full_response)) initial_world
       = initial_world\<lparr>alerts := [''Please select a file to upload.'']\<rparr>
   \<and> requests (handleSubmit sample_env (Response 200 (Some full_response)) initial_world) = []"
proof -
  have h: "file_sel (ui initial_world) = None"
    by (simp add: initial_world_def initial_state_def)
  show ?thesis
    using h submit_without_file_is_noop [OF h, of sample_env "Response 200 (Some full_response)"]
    by (simp add: initial_world_def)
qed

text \<open>
  C10: after a successful response to a submission, the keyword count of the document
  info is the length of the stored keyword list, and that list is the one of the
  response, or the empty list when the response has none.
\<close>

theorem keyword_count_matches_keywords:
  assumes "file_sel (ui w) = Some f"
    and "200 \<le> st \<and> st < 300"
  shows "(\<exists>info. documentInfo (ui (handleSubmit e (Response st (Some d)) w)) = Some info
            \<and> keyword_count info
                = length (keywords_list (ui (handleSubmit e (Response st (Some d)) w))))
         \<and> keywords_list (ui (handleSubmit e (Response st (Some d)) w))
             = (case data_keywords d of None \<Rightarrow> [] | Some ks \<Rightarrow> ks)"
  using assms by (simp add: handler_defs js_defs split: option.split)

text \<open>A response with two keywords.\<close>

theorem keyword_count_matches_keywords_witness:
  "file_sel (ui shown_results) = Some proposal_pdf
   \<and> (\<exists>info. documentInfo
                (ui (handleSubmit sample_env (Response 201 (Some full_response)) shown_results))
              = Some info
            \<and> keyword_count info = 2)
   \<and> length (keywords_list
         (ui (handleSubmit sample_env (Response 201 (Some full_response)) shown_results))) = 2"
proof -
  have h: "file_sel (ui shown_results) = Some proposal_pdf"
    by (simp add: shown_results_eq)
  have k: "data_keywords full_response
             = Some [\<lparr>keyword = ''cloud'', relevance_score = 873 / 1000\<rparr>,
                     \<lparr>keyword = ''migration'', relevance_score = 1 / 2\<rparr>]"
    by (simp add: full_response_def)
  show ?thesis
    using h k keyword_count_matches_keywords [OF h, of 201 sample_env full_response]
    by auto
qed

subsection \<open>The two helpers\<close>

text \<open>The three decisions, an unknown one and a missing one.\<close>

lemma renderDecisionBadge_known:
  "renderDecisionBadge (Some ''ACCEPT'')
     = \<lparr>badge_style = Some (Own \<lparr>backgroundColor = ''var(--success-bg)'',
                                    color = ''var(--success-color)''\<rparr>),
        badge_text = Some (Own (''ACCEPT '' @ [CHR 0xE2, CHR 0x9C, CHR 0x85]))\<rparr>"
  "renderDecisionBadge (Some ''REJECT'')
     = \<lparr>badge_style = Some (Own \<lparr>backgroundColor = ''var(--error-bg)'',
                                    color = ''var(--error-color)''\<rparr>),
        badge_text = Some (Own (''REJECT '' @ [CHR 0xE2, CHR 0x9D, CHR 0x8C]))\<rparr>"
  "renderDecisionBadge (Some ''REVIEW'') = review_badge"
  "renderDecisionBadge (Some ''PENDING'') = review_badge"
  "renderDecisionBadge None = review_badge"
  by (simp_all add: badge_defs review_badge_def)

text \<open>Every string other than ACCEPT and REJECT that is not the name of a member of
  \<open>Object.prototype\<close> gets the badge of REVIEW.\<close>

lemma renderDecisionBadge_fallback:
  assumes "d \<notin> {''ACCEPT'', ''REJECT''}" and "d \<notin> set object_prototype_keys"
  shows "renderDecisionBadge (Some d) = review_badge"
  using assms
  by (simp add: renderDecisionBadge_def get_property_def property_key_def decisionText_def
      styleMap_def truthy_text_def js_or_opt_def truthy_object_def truthy_string_def
      review_badge_def)

text \<open>
  C8 says that every value other than ACCEPT and REJECT gets the label and the style of
  REVIEW. For the decision \<open>constructor\<close> the two property reads find the member that
  the object literals inherit, which is truthy, so the fallback is not taken: the badge
  carries that member as its style and as its child, and differs from the badge of
  REVIEW.
\<close>

theorem renderDecisionBadge_inherited_key:
  "renderDecisionBadge (Some ''constructor'')
     = \<lparr>badge_style = Some (Inherited ''constructor''),
        badge_text = Some (Inherited ''constructor'')\<rparr>
   \<and> renderDecisionBadge (Some ''constructor'') \<noteq> renderDecisionBadge (Some ''REVIEW'')"
  by (simp add: badge_defs)

text \<open>
  C9: \<open>formatINR\<close> gives \<open>Unknown\<close> for an absent value and for every value that is zero
  or negative; for every positive value it gives what the platform's number format for
  the locale \<open>en-IN\<close>, the currency INR and at most zero fraction digits gives.
\<close>

theorem formatINR_cases:
  "formatINR intl_format None = ''Unknown''
   \<and> (v \<le> 0 \<longrightarrow> formatINR intl_format (Some v) = ''Unknown'')
   \<and> (0 < v \<longrightarrow> formatINR intl_format (Some v)
         = intl_format ''en-IN''
             \<lparr>style = ''currency'', currency = ''INR'', maximumFractionDigits = 0\<rparr> v)"
  by (simp add: formatINR_def truthy_number_def)

text \<open>Absent, zero, negative, 500000 and 12499.5.\<close>

theorem formatINR_cases_witness:
  "formatINR intl_format_model None = ''Unknown''
   \<and> formatINR intl_format_model (Some 0) = ''Unknown''
   \<and> formatINR intl_format_model (Some (- 250)) = ''Unknown''
   \<and> formatINR intl_format_model (Some 500000) = [CHR 0xE2, CHR 0x82, CHR 0xB9] @ ''5,00,000''
   \<and> formatINR intl_format_model (Some (24999 / 2)) = [CHR 0xE2, CHR 0x82, CHR 0xB9] @ ''12,500''"
proof -
  have r: "\<lfloor>(500000::rat) + 1 / 2\<rfloor> = 500000" "\<lfloor>(24999::rat) / 2 + 1 / 2\<rfloor> = 12500"
    by (simp_all add: floor_eq_iff)
  have m: "intl_format_model ''en-IN''
             \<lparr>style = ''currency'', currency = ''INR'', maximumFractionDigits = 0\<rparr> 500000
           = [CHR 0xE2, CHR 0x82, CHR 0xB9] @ ''5,00,000''"
    "intl_format_model ''en-IN''
             \<lparr>style = ''currency'', currency = ''INR'', maximumFractionDigits = 0\<rparr> (24999 / 2)
           = [CHR 0xE2, CHR 0x82, CHR 0xB9] @ ''12,500''"
    unfolding intl_format_model_def r
    by (simp_all add: indian_grouping_def digit_char_def)
  show ?thesis
    using formatINR_cases [of intl_format_model 0] formatINR_cases [of intl_format_model "- 250"]
      formatINR_cases [of intl_format_model 500000]
      formatINR_cases [of intl_format_model "24999 / 2"] m
    by simp
qed

end
